theory Spec2Isabelle
  imports Main "HOL-Library.Word" "HOL-Library.Sublist"
begin

section \<open>Errors\<close>

text \<open>
  Go errors are values. The constructors below separate the errors the code tells apart:
  \<open>NotExist\<close> is an error for which \<open>os.IsNotExist\<close> holds, \<open>KVError\<close> is what
  \<open>kp.NewKVError op key err\<close> builds, \<open>EnableError\<close>, \<open>StartError\<close>, \<open>DisableError\<close> and
  \<open>StopError\<close> are the error types of package \<open>launch\<close> that \<open>Pod.Launch\<close> and \<open>Pod.Halt\<close>
  switch on, \<open>UnsupportedLaunchableType t\<close> is the error of \<open>getLaunchable\<close>
  (\<open>launchable type 't' is not supported\<close>), and \<open>Errorf\<close> is every other error, with its
  message.
\<close>

datatype error =
    Errorf string
  | NotExist string
  | KVError string string error
  | UnsupportedLaunchableType string
  | EnableError string
  | StartError string
  | DisableError string
  | StopError string

fun IsNotExist :: "error \<Rightarrow> bool" where
  "IsNotExist (NotExist _) = True"
| "IsNotExist _ = False"

section \<open>Label matches over HTTP (package labels, httpApplicator)\<close>

text \<open>
  \<open>labels.Type\<close> is a string type and \<open>labels.Set\<close> a \<open>map[string]string\<close>. The HTTP client
  and the JSON decoder of the Go standard library are fields of the applicator here:
  \<open>client url\<close> is the response body of the GET or the transport error, \<open>decode body\<close> the
  decoded \<open>[]string\<close> or the decoder's error. \<open>QueryEscape\<close> is \<open>url.QueryEscape\<close>.
\<close>

record Labeled =
  ID :: string
  LabelType :: string
  Labels :: "string \<rightharpoonup> string"

record URL =
  Base :: string
  RawQuery :: string

record httpApplicator =
  client :: "string \<Rightarrow> error + string"
  decode :: "string \<Rightarrow> error + string list"
  QueryEscape :: "string \<Rightarrow> string"
  matchesEndpoint :: URL

definition URL_String :: "URL \<Rightarrow> string" where
  "URL_String u = Base u @ (if RawQuery u = [] then [] else ''?'' @ RawQuery u)"

text \<open>\<open>url.Values.Encode\<close> for the two keys added by \<open>GetMatches\<close>, sorted by key.\<close>

definition params_Encode :: "(string \<Rightarrow> string) \<Rightarrow> string \<Rightarrow> string \<Rightarrow> string" where
  "params_Encode esc selector labelType =
     ''selector='' @ esc selector @ ''&type='' @ esc labelType"

text \<open>The zero value \<open>Labeled{}\<close> that \<open>make([]Labeled, n)\<close> fills the slice with.\<close>

definition Labeled_zero :: Labeled where
  "Labeled_zero = \<lparr>ID = [], LabelType = [], Labels = Map.empty\<rparr>"

text \<open>The loop \<open>for i, s := range matches { labeled[i] = Labeled{...} }\<close>.\<close>

fun fill_labeled :: "nat \<Rightarrow> string list \<Rightarrow> string \<Rightarrow> Labeled list \<Rightarrow> Labeled list" where
  "fill_labeled i [] labelType labeled = labeled"
| "fill_labeled i (s # ss) labelType labeled =
     fill_labeled (Suc i) ss labelType
       (labeled[i := \<lparr>ID = s, LabelType = labelType, Labels = Map.empty\<rparr>])"

definition GetMatches ::
  "httpApplicator \<Rightarrow> string \<Rightarrow> string \<Rightarrow> Labeled list \<times> error option" where
  "GetMatches h selector labelType =
     (let urlToGet = (matchesEndpoint h)
            \<lparr>RawQuery := params_Encode (QueryEscape h) selector labelType\<rparr>
      in case client h (URL_String urlToGet) of
           Inl err \<Rightarrow> ([], Some err)
         | Inr body \<Rightarrow>
             (case decode h body of
                Inl err \<Rightarrow> ([], Some err)
              | Inr matches \<Rightarrow>
                  (fill_labeled 0 matches labelType
                     (replicate (length matches) Labeled_zero), None)))"

text \<open>The URL that \<open>GetMatches\<close> requests.\<close>

definition matches_url :: "httpApplicator \<Rightarrow> string \<Rightarrow> string \<Rightarrow> string" where
  "matches_url h selector labelType =
     URL_String ((matchesEndpoint h)
       \<lparr>RawQuery := params_Encode (QueryEscape h) selector labelType\<rparr>)"

text \<open>
  A concrete applicator for evaluation: the endpoint answers every request with a body of
  comma-separated ids, which the decoder splits; an empty body is a decode error.
\<close>

fun split_ids :: "string \<Rightarrow> string \<Rightarrow> string list" where
  "split_ids acc [] = (if acc = [] then [] else [acc])"
| "split_ids acc (c # cs) =
     (if c = CHR '','' then acc # split_ids [] cs else split_ids (acc @ [c]) cs)"

definition test_applicator :: "string \<Rightarrow> httpApplicator" where
  "test_applicator body =
     \<lparr>client = (\<lambda>u. if body = ''down'' then Inl (Errorf ''connection refused'') else Inr body),
      decode = (\<lambda>b. if b = [] then Inl (Errorf ''EOF'') else Inr (split_ids [] b)),
      QueryEscape = (\<lambda>s. s),
      matchesEndpoint = \<lparr>Base = ''http://labels/matches'', RawQuery = []\<rparr>\<rparr>"

section \<open>Manifests, stanzas and pods (package pods, pod.go)\<close>

text \<open>
  Modelled from the spec: the \<open>Manifest\<close> interface, \<open>LaunchableStanza\<close> and the cgroup
  configuration are declared in other files of the repository. A manifest is a record of what the
  code reads through the interface: \<open>ID()\<close>, \<open>RunAsUser()\<close>, \<open>GetLaunchableStanzas()\<close> (in
  the order the code ranges over them), \<open>GetRestartPolicy()\<close>, and \<open>Bytes\<close>, the bytes that
  \<open>manifest.Write\<close> emits (the canonical serialisation). The stanza has the fields of the
  manifest file format. \<open>time.Duration\<close> is an integer count of nanoseconds.
\<close>

record cgroups_Config =
  Name :: string
  CPUs :: int
  Memory :: int

record LaunchableStanza =
  LaunchableId :: string
  LaunchableType :: string
  Location :: string
  DigestLocation :: string
  DigestSignatureLocation :: string
  CgroupConfig :: cgroups_Config
  RestartTimeout :: string

record Manifest =
  manifest_Id :: string
  RunAsUser :: string
  LaunchableStanzas :: "LaunchableStanza list"
  RestartPolicy :: string
  Bytes :: string

record Pod =
  Id :: string
  path :: string
  P2Exec :: string
  DefaultTimeout :: int

text \<open>
  The two launchable structs \<open>getLaunchable\<close> builds, with the fields it sets (the
  \<open>Fetcher\<close> of a hoist launchable is the constant \<open>uri.DefaultFetcher\<close> and is left out).
\<close>

record hoist_Launchable =
  h_Location :: string
  h_Id :: string
  h_RunAs :: string
  h_PodEnvDir :: string
  h_RootDir :: string
  h_P2Exec :: string
  h_ExecNoLimit :: bool
  h_RestartTimeout :: int
  h_RestartPolicy :: string
  h_CgroupConfig :: cgroups_Config
  h_CgroupConfigName :: string

record opencontainer_Launchable =
  oc_Location :: string
  oc_ID :: string
  oc_RunAs :: string
  oc_RootDir :: string
  oc_P2Exec :: string
  oc_RestartTimeout :: int
  oc_RestartPolicy :: string
  oc_CgroupConfig :: cgroups_Config

datatype Launchable =
    Hoist hoist_Launchable
  | Opencontainer opencontainer_Launchable

text \<open>
  What \<open>pod.go\<close> takes from its process and from the standard library: the flag
  \<open>*ExperimentalOpencontainer\<close>, \<open>time.ParseDuration\<close> and \<open>filepath.Join\<close>.
\<close>

record pods_env =
  ExperimentalOpencontainer :: bool
  ParseDuration :: "string \<Rightarrow> error + int"
  Join :: "string \<Rightarrow> string \<Rightarrow> string"

definition EnvDir :: "pods_env \<Rightarrow> Pod \<Rightarrow> string" where
  "EnvDir env pod = Join env (path pod) ''env''"

definition getLaunchable ::
  "pods_env \<Rightarrow> Pod \<Rightarrow> LaunchableStanza \<Rightarrow> string \<Rightarrow> string \<Rightarrow> error + Launchable" where
  "getLaunchable env pod launchableStanza runAsUser restartPolicy =
     (let launchableRootDir = Join env (path pod) (LaunchableId launchableStanza);
          launchableId = Id pod @ ''__'' @ LaunchableId launchableStanza;
          restartTimeout =
            (if RestartTimeout launchableStanza \<noteq> [] then
               (case ParseDuration env (RestartTimeout launchableStanza) of
                  Inl err \<Rightarrow> DefaultTimeout pod
                | Inr possibleTimeout \<Rightarrow> possibleTimeout)
             else DefaultTimeout pod)
      in if LaunchableType launchableStanza = ''hoist'' then
           Inr (Hoist
             \<lparr>h_Location = Location launchableStanza,
              h_Id = launchableId,
              h_RunAs = runAsUser,
              h_PodEnvDir = EnvDir env pod,
              h_RootDir = launchableRootDir,
              h_P2Exec = P2Exec pod,
              h_ExecNoLimit = True,
              h_RestartTimeout = restartTimeout,
              h_RestartPolicy = restartPolicy,
              h_CgroupConfig = (CgroupConfig launchableStanza)\<lparr>Name := launchableId\<rparr>,
              h_CgroupConfigName = LaunchableId launchableStanza\<rparr>)
         else if ExperimentalOpencontainer env
                 \<and> LaunchableType launchableStanza = ''opencontainer'' then
           Inr (Opencontainer
             \<lparr>oc_Location = Location launchableStanza,
              oc_ID = launchableId,
              oc_RunAs = runAsUser,
              oc_RootDir = launchableRootDir,
              oc_P2Exec = P2Exec pod,
              oc_RestartTimeout = restartTimeout,
              oc_RestartPolicy = restartPolicy,
              oc_CgroupConfig = (CgroupConfig launchableStanza)\<lparr>Name := launchableId\<rparr>\<rparr>)
         else Inl (UnsupportedLaunchableType (LaunchableType launchableStanza)))"

text \<open>
  \<open>Pod.Launchables\<close>: the loop over the stanzas appends each launchable and returns the
  first error of \<open>getLaunchable\<close>.
\<close>

fun Launchables_loop ::
  "pods_env \<Rightarrow> Pod \<Rightarrow> Manifest \<Rightarrow> LaunchableStanza list \<Rightarrow> Launchable list
     \<Rightarrow> error + Launchable list" where
  "Launchables_loop env pod manifest [] launchables = Inr launchables"
| "Launchables_loop env pod manifest (launchableStanza # rest) launchables =
     (case getLaunchable env pod launchableStanza (RunAsUser manifest) (RestartPolicy manifest) of
        Inl err \<Rightarrow> Inl err
      | Inr launchable \<Rightarrow> Launchables_loop env pod manifest rest (launchables @ [launchable]))"

definition Launchables :: "pods_env \<Rightarrow> Pod \<Rightarrow> Manifest \<Rightarrow> error + Launchable list" where
  "Launchables env pod manifest =
     Launchables_loop env pod manifest (LaunchableStanzas manifest) []"

section \<open>The current manifest file (pod.go, WriteCurrentManifest)\<close>

text \<open>
  The two files \<open>WriteCurrentManifest\<close> touches: \<open>current_manifest.yaml\<close> in the pod
  directory and \<open>last_manifest.yaml\<close> in the temporary directory it creates. A file has its
  bytes and its owner; \<open>None\<close> is an absent file.

  The outcomes of the operating system calls are fields of \<open>os_env\<close>: \<open>None\<close> is success.
  \<open>Write_fail = Some (n, e)\<close> says that \<open>manifest.Write\<close> fails with \<open>e\<close> after \<open>n\<close> bytes
  have reached the file. \<open>os.Stat\<close> succeeds exactly when the file is there. \<open>euid\<close> is
  the owner a file created by this process gets.
\<close>

record os_file =
  content :: string
  owner :: "int \<times> int"

record filesys =
  current_manifest :: "os_file option"
  last_manifest :: "os_file option"

record os_env =
  TempDir :: "error + string"
  URICopy_err :: "error option"
  OpenFile_err :: "error option"
  Write_fail :: "(nat \<times> error) option"
  user_IDs :: "string \<Rightarrow> error + (int \<times> int)"
  Chown_err :: "error option"
  Rename_err :: "error option"
  MkdirChownAll_err :: "string \<Rightarrow> error option"
  euid :: "int \<times> int"

definition revertCurrentManifest :: "os_env \<Rightarrow> filesys \<Rightarrow> error option \<times> filesys" where
  "revertCurrentManifest os fs =
     (case last_manifest fs of
        Some f \<Rightarrow>
          (case Rename_err os of
             None \<Rightarrow> (None, fs\<lparr>current_manifest := Some f, last_manifest := None\<rparr>)
           | Some err \<Rightarrow> (Some err, fs))
      | None \<Rightarrow> (Some (NotExist ''stat last_manifest.yaml''), fs))"

text \<open>
  The block \<open>if _, err := os.Stat(current); err == nil { err = uri.URICopy(current, last) ... }\<close>:
  an existing current manifest is copied to the temporary file; a copy error for which
  \<open>os.IsNotExist\<close> holds is passed over, any other is returned.
\<close>

definition stage_last_manifest :: "os_env \<Rightarrow> filesys \<Rightarrow> error + filesys" where
  "stage_last_manifest os fs =
     (case current_manifest fs of
        None \<Rightarrow> Inr fs
      | Some f \<Rightarrow>
          (case URICopy_err os of
             None \<Rightarrow> Inr (fs\<lparr>last_manifest := Some \<lparr>content = content f, owner = euid os\<rparr>\<rparr>)
           | Some err \<Rightarrow> if \<not> IsNotExist err then Inl err else Inr fs))"

text \<open>
  \<open>os.OpenFile(current, O_WRONLY|O_CREATE|O_TRUNC, 0644)\<close> on success: an existing file
  is emptied in place and keeps its owner, an absent one is created empty.
\<close>

definition open_trunc :: "os_env \<Rightarrow> filesys \<Rightarrow> filesys" where
  "open_trunc os fs =
     fs\<lparr>current_manifest :=
          Some \<lparr>content = [],
                owner = (case current_manifest fs of None \<Rightarrow> euid os | Some f \<Rightarrow> owner f)\<rparr>\<rparr>"

text \<open>
  Writing and \<open>Chown\<close> go through the open descriptor \<open>f\<close>: they change the file that was
  opened, here the current manifest file as long as nothing has been renamed over it.
\<close>

definition write_bytes :: "string \<Rightarrow> filesys \<Rightarrow> filesys" where
  "write_bytes bs fs =
     fs\<lparr>current_manifest := map_option (\<lambda>f. f\<lparr>content := content f @ bs\<rparr>) (current_manifest fs)\<rparr>"

definition chown_current :: "int \<times> int \<Rightarrow> filesys \<Rightarrow> filesys" where
  "chown_current ids fs =
     fs\<lparr>current_manifest := map_option (\<lambda>f. f\<lparr>owner := ids\<rparr>) (current_manifest fs)\<rparr>"

text \<open>
  \<open>WriteCurrentManifest\<close> returns the path of the staged copy and the error, and here also
  the successive states of the two files during the call, the first being the state at the
  call (with a fresh temporary directory) and the last the state at the return.
\<close>

definition WriteCurrentManifest ::
  "os_env \<Rightarrow> Manifest \<Rightarrow> os_file option \<Rightarrow> string \<times> error option \<times> filesys list" where
  "WriteCurrentManifest os manifest cur =
     (let fs0 = \<lparr>current_manifest = cur, last_manifest = None\<rparr> in
      case TempDir os of
        Inl err \<Rightarrow>
          ([], Some (Errorf ''could not create a tempdir to write old manifest''), [fs0])
      | Inr tmpDir \<Rightarrow>
          (let lastManifest = tmpDir @ ''/last_manifest.yaml'' in
           case stage_last_manifest os fs0 of
             Inl err \<Rightarrow> ([], Some err, [fs0])
           | Inr fs1 \<Rightarrow>
               (case OpenFile_err os of
                  Some err \<Rightarrow>
                    (let (err', fs2) = revertCurrentManifest os fs1
                     in ([], err', [fs0, fs1, fs2]))
                | None \<Rightarrow>
                    (let fs2 = open_trunc os fs1 in
                     case Write_fail os of
                       Some (n, err) \<Rightarrow>
                         (let fs3 = write_bytes (take n (Bytes manifest)) fs2;
                              (err', fs4) = revertCurrentManifest os fs3
                          in ([], err', [fs0, fs1, fs2, fs3, fs4]))
                     | None \<Rightarrow>
                         (let fs3 = write_bytes (Bytes manifest) fs2 in
                          case user_IDs os (RunAsUser manifest) of
                            Inl err \<Rightarrow> ([], Some err, [fs0, fs1, fs2, fs3])
                          | Inr ids \<Rightarrow>
                              (case Chown_err os of
                                 Some err \<Rightarrow> ([], Some err, [fs0, fs1, fs2, fs3])
                               | None \<Rightarrow>
                                   (lastManifest, None,
                                    [fs0, fs1, fs2, fs3, chown_current ids fs3])))))))"

section \<open>Launch and Install (pod.go)\<close>

text \<open>
  The methods of the \<open>launch.Launchable\<close> interface and of the runit service builder are
  in other files of the repository; their outcomes are fields of \<open>launch_env\<close>. \<open>Executables\<close>
  gives the service name and the command of each executable. \<open>setupConfig_err\<close> is the
  outcome of \<open>Pod.setupConfig\<close>, whose file operations are not followed here. Logging is
  left out.
\<close>

record launch_env =
  MakeCurrent :: "Launchable \<Rightarrow> error option"
  PostActivate :: "Launchable \<Rightarrow> string \<times> error option"
  Launchable_Launch :: "Launchable \<Rightarrow> error option"
  Launchable_Install :: "Launchable \<Rightarrow> error option"
  Executables :: "Launchable \<Rightarrow> error + (string \<times> string list) list"
  Activate :: "string \<Rightarrow> (string \<rightharpoonup> string list) \<Rightarrow> string \<Rightarrow> error option"
  Prune_err :: "error option"
  setupConfig_err :: "error option"

text \<open>\<open>buildRunitServices\<close>: the inner loop stops at a service name already in the template.\<close>

fun add_executables ::
  "(string \<times> string list) list \<Rightarrow> (string \<rightharpoonup> string list)
     \<Rightarrow> error + (string \<rightharpoonup> string list)" where
  "add_executables [] sbTemplate = Inr sbTemplate"
| "add_executables ((name, exec) # rest) sbTemplate =
     (if sbTemplate name \<noteq> None then Inl (Errorf (''Duplicate executable '' @ name))
      else add_executables rest (sbTemplate(name \<mapsto> exec)))"

fun sbTemplate_loop ::
  "launch_env \<Rightarrow> Launchable list \<Rightarrow> (string \<rightharpoonup> string list)
     \<Rightarrow> error + (string \<rightharpoonup> string list)" where
  "sbTemplate_loop le [] sbTemplate = Inr sbTemplate"
| "sbTemplate_loop le (launchable # rest) sbTemplate =
     (case Executables le launchable of
        Inl err \<Rightarrow> sbTemplate_loop le rest sbTemplate
      | Inr executables \<Rightarrow>
          (case add_executables executables sbTemplate of
             Inl err \<Rightarrow> Inl err
           | Inr sbTemplate' \<Rightarrow> sbTemplate_loop le rest sbTemplate'))"

definition buildRunitServices ::
  "launch_env \<Rightarrow> Pod \<Rightarrow> Launchable list \<Rightarrow> string \<Rightarrow> error option" where
  "buildRunitServices le pod launchables restartPolicy =
     (case sbTemplate_loop le launchables Map.empty of
        Inl err \<Rightarrow> Some err
      | Inr sbTemplate \<Rightarrow>
          (case Activate le (Id pod) sbTemplate restartPolicy of
             Some err \<Rightarrow> Some err
           | None \<Rightarrow> Prune_err le))"

text \<open>
  The first loop of \<open>Launch\<close>: \<open>MakeCurrent\<close>, whose error ends the launch, then
  \<open>PostActivate\<close>, whose outcome is appended to \<open>successes\<close>.
\<close>

fun activate_loop :: "launch_env \<Rightarrow> Launchable list \<Rightarrow> bool list \<Rightarrow> error + bool list" where
  "activate_loop le [] successes = Inr successes"
| "activate_loop le (launchable # rest) successes =
     (case MakeCurrent le launchable of
        Some err \<Rightarrow> Inl err
      | None \<Rightarrow>
          (case snd (PostActivate le launchable) of
             Some err \<Rightarrow> activate_loop le rest (successes @ [False])
           | None \<Rightarrow> activate_loop le rest (successes @ [True])))"

text \<open>
  The second loop of \<open>Launch\<close>, over \<open>i, launchable\<close>: a launchable whose post-activate
  failed is passed over; the type switch on the error of \<open>launchable.Launch\<close> keeps
  \<open>success\<close> on \<open>nil\<close> and on a \<open>launch.EnableError\<close>, and clears it on every other error.
\<close>

fun start_loop ::
  "launch_env \<Rightarrow> nat \<Rightarrow> Launchable list \<Rightarrow> bool list \<Rightarrow> bool \<Rightarrow> bool" where
  "start_loop le i [] successes success = success"
| "start_loop le i (launchable # rest) successes success =
     (if \<not> successes ! i then start_loop le (Suc i) rest successes success
      else case Launchable_Launch le launchable of
             None \<Rightarrow> start_loop le (Suc i) rest successes success
           | Some (EnableError m) \<Rightarrow> start_loop le (Suc i) rest successes success
           | Some err \<Rightarrow> start_loop le (Suc i) rest successes False)"

text \<open>
  \<open>Pod.Launch\<close> returns \<open>(success, err)\<close>; the third component is the current manifest file
  it leaves (the deferred \<open>os.RemoveAll\<close> removes only the staged copy). The error of
  \<open>buildRunitServices\<close> is assigned and never read. In the loop,
  \<open>successes ! i\<close> is in range: the first loop has appended one entry per launchable.
\<close>

definition Pod_Launch ::
  "pods_env \<Rightarrow> os_env \<Rightarrow> launch_env \<Rightarrow> Pod \<Rightarrow> Manifest \<Rightarrow> os_file option
     \<Rightarrow> bool \<times> error option \<times> os_file option" where
  "Pod_Launch env os le pod manifest cur =
     (case Launchables env pod manifest of
        Inl err \<Rightarrow> (False, Some err, cur)
      | Inr launchables \<Rightarrow>
          (case WriteCurrentManifest os manifest cur of
             (oldManifestTemp, werr, trace) \<Rightarrow>
               (let cur' = current_manifest (last trace) in
                case werr of
                  Some err \<Rightarrow> (False, Some err, cur')
                | None \<Rightarrow>
                    (case activate_loop le launchables [] of
                       Inl err \<Rightarrow> (False, Some err, cur')
                     | Inr successes \<Rightarrow>
                         (let err = buildRunitServices le pod launchables (RestartPolicy manifest);
                              success = start_loop le 0 launchables successes True
                          in (success, None, cur'))))))"

text \<open>\<open>Pod.Install\<close>: the loop installs each launchable and returns the first error.\<close>

fun install_loop :: "launch_env \<Rightarrow> Launchable list \<Rightarrow> error option" where
  "install_loop le [] = None"
| "install_loop le (launchable # rest) =
     (case Launchable_Install le launchable of
        Some err \<Rightarrow> Some err
      | None \<Rightarrow> install_loop le rest)"

definition Pod_Install ::
  "pods_env \<Rightarrow> os_env \<Rightarrow> launch_env \<Rightarrow> Pod \<Rightarrow> Manifest \<Rightarrow> error option" where
  "Pod_Install env os le pod manifest =
     (case user_IDs os (RunAsUser manifest) of
        Inl err \<Rightarrow> Some (Errorf ''Could not determine pod UID/GID'')
      | Inr ids \<Rightarrow>
          (case MkdirChownAll_err os (path pod) of
             Some err \<Rightarrow> Some (Errorf ''Could not create pod home'')
           | None \<Rightarrow>
               (case Launchables env pod manifest of
                  Inl err \<Rightarrow> Some err
                | Inr launchables \<Rightarrow>
                    (case install_loop le launchables of
                       Some err \<Rightarrow> Some err
                     | None \<Rightarrow>
                         (case setupConfig_err le of
                            Some err \<Rightarrow> Some (Errorf ''Could not setup config'')
                          | None \<Rightarrow> None)))))"

text \<open>
  The outcome of \<open>launchable.Launch\<close> that the type switch of \<open>Pod.Launch\<close> lets pass:
  \<open>nil\<close> or a \<open>launch.EnableError\<close>.
\<close>

fun is_EnableError :: "error \<Rightarrow> bool" where
  "is_EnableError (EnableError m) = True"
| "is_EnableError e = False"

definition started :: "launch_env \<Rightarrow> Launchable \<Rightarrow> bool" where
  "started le l = (case Launchable_Launch le l of None \<Rightarrow> True | Some e \<Rightarrow> is_EnableError e)"

section \<open>Concrete pods for evaluation\<close>

definition test_env :: "bool \<Rightarrow> pods_env" where
  "test_env flag =
     \<lparr>ExperimentalOpencontainer = flag,
      ParseDuration = (\<lambda>s. if s = ''10s'' then Inr 10000000000 else Inl (Errorf ''invalid duration'')),
      Join = (\<lambda>a b. a @ ''/'' @ b)\<rparr>"

definition test_pod :: Pod where
  "test_pod = \<lparr>Id = ''web'', path = ''/data/pods/web'', P2Exec = ''/usr/local/bin/p2-exec'',
               DefaultTimeout = 60000000000\<rparr>"

definition test_stanza :: "string \<Rightarrow> string \<Rightarrow> LaunchableStanza" where
  "test_stanza lid ty =
     \<lparr>LaunchableId = lid, LaunchableType = ty, Location = ''http://art/app.tgz'',
      DigestLocation = [], DigestSignatureLocation = [],
      CgroupConfig = \<lparr>Name = [], CPUs = 0, Memory = 0\<rparr>, RestartTimeout = []\<rparr>"

definition test_manifest :: "string \<Rightarrow> LaunchableStanza list \<Rightarrow> Manifest" where
  "test_manifest bs stanzas =
     \<lparr>manifest_Id = ''web'', RunAsUser = ''web'', LaunchableStanzas = stanzas,
      RestartPolicy = ''always'', Bytes = bs\<rparr>"

definition test_os :: os_env where
  "test_os =
     \<lparr>TempDir = Inr ''/tmp/manifests1'', URICopy_err = None, OpenFile_err = None,
      Write_fail = None, user_IDs = (\<lambda>u. Inr (1000, 1000)), Chown_err = None,
      Rename_err = None, MkdirChownAll_err = (\<lambda>p. None), euid = (0, 0)\<rparr>"

definition two_hoist :: Manifest where
  "two_hoist =
     test_manifest ''id: web'' [test_stanza ''app'' ''hoist'', test_stanza ''db'' ''hoist'']"

definition one_docker :: Manifest where
  "one_docker =
     test_manifest ''id: web'' [test_stanza ''app'' ''hoist'', test_stanza ''db'' ''docker'']"

text \<open>
  What an observer of \<open>current_manifest.yaml\<close> can find. \<open>manifest_file_complete ms\<close>: the
  file is absent or holds one of the complete serialisations \<open>ms\<close>. \<open>previous_or_prefix\<close>:
  the file is absent, or has the bytes of the file that was there at the call, or has a
  prefix of the new manifest's bytes.
\<close>

definition manifest_file_complete :: "string list \<Rightarrow> filesys \<Rightarrow> bool" where
  "manifest_file_complete ms fs =
     (case current_manifest fs of None \<Rightarrow> True | Some f \<Rightarrow> content f \<in> set ms)"

definition previous_or_prefix :: "os_file option \<Rightarrow> string \<Rightarrow> filesys \<Rightarrow> bool" where
  "previous_or_prefix cur new fs =
     (case current_manifest fs of
        None \<Rightarrow> True
      | Some f \<Rightarrow> (case cur of Some g \<Rightarrow> content f = content g | None \<Rightarrow> False)
                  \<or> prefix (content f) new)"

text \<open>The copy error, if any, is one that \<open>WriteCurrentManifest\<close> passes over.\<close>

definition copy_passed :: "os_env \<Rightarrow> bool" where
  "copy_passed os = (case URICopy_err os of None \<Rightarrow> True | Some err \<Rightarrow> IsNotExist err)"

definition old_file :: os_file where
  "old_file = \<lparr>content = ''id: web, v1'', owner = (1000, 1000)\<rparr>"

definition new_manifest :: Manifest where
  "new_manifest = test_manifest ''id: web, v2'' [test_stanza ''app'' ''hoist'']"

definition chown_fails :: os_env where
  "chown_fails = test_os\<lparr>Chown_err := Some (Errorf ''operation not permitted'')\<rparr>"

definition write_fails :: os_env where
  "write_fails = test_os\<lparr>Write_fail := Some (4, Errorf ''no space left on device'')\<rparr>"

definition open_fails :: os_env where
  "open_fails = test_os\<lparr>OpenFile_err := Some (Errorf ''permission denied'')\<rparr>"

definition tempdir_fails :: os_env where
  "tempdir_fails = test_os\<lparr>TempDir := Inl (Errorf ''read-only file system'')\<rparr>"

text \<open>
  A launch environment in which the launchable of stanza \<open>bad_start\<close> does not start and
  that of \<open>bad_enable\<close> is not enabled; everything else succeeds.
\<close>

fun Launchable_id :: "Launchable \<Rightarrow> string" where
  "Launchable_id (Hoist h) = h_Id h"
| "Launchable_id (Opencontainer c) = oc_ID c"

definition test_launch_env :: "string \<Rightarrow> string \<Rightarrow> launch_env" where
  "test_launch_env bad_start bad_enable =
     \<lparr>MakeCurrent = (\<lambda>l. None),
      PostActivate = (\<lambda>l. ([], None)),
      Launchable_Launch = (\<lambda>l.
        if Launchable_id l = bad_start then Some (StartError ''sv start failed'')
        else if Launchable_id l = bad_enable then Some (EnableError ''sv enable failed'')
        else None),
      Launchable_Install = (\<lambda>l. None),
      Executables = (\<lambda>l. Inr []),
      Activate = (\<lambda>p t r. None),
      Prune_err = None,
      setupConfig_err = None\<rparr>"

section \<open>The preparer's pod worker (package preparer)\<close>

text \<open>
  Modelled from the spec: the struct \<open>pods.PodManifest\<close> this file works on is declared
  in other files of the repository; it has the pod id the code reads (\<open>Id\<close>), the launchable
  stanzas and the configuration of a manifest. \<open>PodManifest_zero\<close> is the zero value
  \<open>pods.PodManifest{}\<close>.
\<close>

record PodManifest =
  PodManifest_Id :: string
  PodManifest_Stanzas :: "LaunchableStanza list"
  PodManifest_Config :: "(string \<times> string) list"

definition PodManifest_zero :: PodManifest where
  "PodManifest_zero =
     \<lparr>PodManifest_Id = [], PodManifest_Stanzas = [], PodManifest_Config = []\<rparr>"

text \<open>
  The interface \<open>Pod\<close> of the file: each method takes the state of the pod on the host and
  returns its results with the new state.
\<close>

record 's PodI =
  Launch :: "PodManifest \<Rightarrow> 's \<Rightarrow> (bool \<times> error option) \<times> 's"
  Install :: "PodManifest \<Rightarrow> 's \<Rightarrow> error option \<times> 's"
  CurrentManifest :: "'s \<Rightarrow> (error + PodManifest) \<times> 's"
  Halt :: "'s \<Rightarrow> (bool \<times> error option) \<times> 's"

text \<open>The calls a worker makes on the pod, in order.\<close>

datatype pod_call =
    Call_Install PodManifest
  | Call_CurrentManifest
  | Call_Launch PodManifest
  | Call_Halt

text \<open>
  \<open>installAndLaunchPod\<close>. \<open>SHA\<close> is the string \<open>manifest.SHA()\<close> returns (its error is
  dropped by the code). The result is the boolean, the calls made, and the pod's state.
\<close>

definition installAndLaunchPod ::
  "(PodManifest \<Rightarrow> string) \<Rightarrow> 's PodI \<Rightarrow> PodManifest \<Rightarrow> 's \<Rightarrow> bool \<times> pod_call list \<times> 's" where
  "installAndLaunchPod SHA pod newManifest s =
     (case Install pod newManifest s of
        (Some err, s1) \<Rightarrow> (False, [Call_Install newManifest], s1)
      | (None, s1) \<Rightarrow>
          (case CurrentManifest pod s1 of
             (Inl err, s2) \<Rightarrow>
               (if IsNotExist err then
                  (case Launch pod newManifest s2 of
                     ((ok, err), s3) \<Rightarrow>
                       (if err \<noteq> None \<or> \<not> ok
                        then (False, [Call_Install newManifest, Call_CurrentManifest,
                                      Call_Launch newManifest], s3)
                        else (True, [Call_Install newManifest, Call_CurrentManifest,
                                     Call_Launch newManifest], s3)))
                else (False, [Call_Install newManifest, Call_CurrentManifest], s2))
           | (Inr currentManifest, s2) \<Rightarrow>
               (let currentSHA = SHA currentManifest;
                    newSHA = SHA newManifest
                in if currentSHA \<noteq> newSHA then
                     (case Halt pod s2 of
                        ((ok, err), s3) \<Rightarrow>
                          (if err \<noteq> None \<or> \<not> ok
                           then (False, [Call_Install newManifest, Call_CurrentManifest,
                                         Call_Halt], s3)
                           else (True, [Call_Install newManifest, Call_CurrentManifest,
                                        Call_Halt], s3)))
                   else (True, [Call_Install newManifest, Call_CurrentManifest], s2))))"

text \<open>
  \<open>handlePods\<close>. Each turn of the loop takes one branch of the \<open>select\<close>: the quit channel,
  a manifest from the pod channel, or \<open>default\<close>; the list of events says which. What the
  worker does is returned as a list of actions. \<open>RunHooks\<close>, \<open>path.Join\<close>,
  \<open>pods.PodFromManifestId\<close> and \<open>SHA\<close> are fields of the environment.
\<close>

datatype worker_event = Quit | Received PodManifest | Default

datatype worker_action =
    Pod_calls "pod_call list"
  | Call_RunHooks string PodManifest
  | Println error
  | Sleep_seconds nat

record 's worker_env =
  PodFromManifestId :: "string \<Rightarrow> 's PodI"
  manifest_SHA :: "PodManifest \<Rightarrow> string"
  RunHooks :: "string \<Rightarrow> PodManifest \<Rightarrow> error option"
  path_Join :: "string \<Rightarrow> string \<Rightarrow> string"

fun handlePods ::
  "'s worker_env \<Rightarrow> string \<Rightarrow> worker_event list \<Rightarrow> PodManifest \<Rightarrow> bool \<Rightarrow> 's
     \<Rightarrow> worker_action list" where
  "handlePods w hooksDirectory [] manifestToLaunch working s = []"
| "handlePods w hooksDirectory (Quit # es) manifestToLaunch working s = []"
| "handlePods w hooksDirectory (Received m # es) manifestToLaunch working s =
     handlePods w hooksDirectory es m True s"
| "handlePods w hooksDirectory (Default # es) manifestToLaunch working s =
     (if working then
        (case installAndLaunchPod (manifest_SHA w)
                (PodFromManifestId w (PodManifest_Id manifestToLaunch)) manifestToLaunch s of
           (ok, calls, s') \<Rightarrow>
             (if ok then
                (let manifestToLaunch' = PodManifest_zero;
                     err = RunHooks w (path_Join w hooksDirectory ''after'') manifestToLaunch'
                 in Pod_calls calls
                    # Call_RunHooks (path_Join w hooksDirectory ''after'') manifestToLaunch'
                    # (case err of Some e \<Rightarrow> [Println e] | None \<Rightarrow> [])
                    @ handlePods w hooksDirectory es manifestToLaunch' False s')
              else Pod_calls calls # Sleep_seconds 1
                   # handlePods w hooksDirectory es manifestToLaunch working s'))
      else handlePods w hooksDirectory es manifestToLaunch working s)"

text \<open>
  A concrete pod for evaluation: its state is the manifest on disk; \<open>Install\<close> and \<open>Halt\<close>
  succeed, \<open>Launch\<close> succeeds and puts the manifest on disk, and the hooks fail.
\<close>

definition disk_pod :: "(PodManifest option) PodI" where
  "disk_pod =
     \<lparr>Launch = (\<lambda>m s. ((True, None), Some m)),
      Install = (\<lambda>m s. (None, s)),
      CurrentManifest = (\<lambda>s. (case s of None \<Rightarrow> Inl (NotExist ''current_manifest.yaml'')
                                       | Some m \<Rightarrow> Inr m, s)),
      Halt = (\<lambda>s. ((True, None), s))\<rparr>"

definition config_SHA :: "PodManifest \<Rightarrow> string" where
  "config_SHA m = PodManifest_Id m @ concat (map (\<lambda>(k, v). k @ v) (PodManifest_Config m))"

definition web_v :: "string \<Rightarrow> PodManifest" where
  "web_v v = \<lparr>PodManifest_Id = ''web'', PodManifest_Stanzas = [],
             PodManifest_Config = [(''version'', v)]\<rparr>"

definition test_worker :: "(PodManifest option) worker_env" where
  "test_worker =
     \<lparr>PodFromManifestId = (\<lambda>i. disk_pod),
      manifest_SHA = config_SHA,
      RunHooks = (\<lambda>d m. Some (Errorf ''exit status 1'')),
      path_Join = (\<lambda>a b. a @ ''/'' @ b)\<rparr>"

section \<open>Health checks (package watch, health.go)\<close>

text \<open>
  \<open>health.HealthState\<close> is a string type; \<open>NoState\<close> is the empty string that \<open>check\<close>
  returns beside an error. \<open>check\<close> runs its argument as a shell script: \<open>cmd_run\<close> is how
  the command ended. \<open>cmd.Start\<close> fails, or \<open>cmd.Wait\<close> returns an error with the output
  so far, or \<open>Wait\<close> returns nil. \<open>Wait\<close> returns an error for every exit with a
  non-zero status, so after a nil error the command has exited with status zero and
  \<open>ProcessState.Success()\<close> holds: the \<open>Critical\<close> branch of \<open>check\<close> is never taken. The
  shell is the parameter \<open>sh\<close>.
\<close>

datatype HealthState = Passing | Warning | Critical | Unknown | NoState

datatype cmd_run =
    Start_fails error
  | Wait_fails error string
  | Exits string

fun ProcessState_Success :: "cmd_run \<Rightarrow> bool" where
  "ProcessState_Success (Exits output) = True"
| "ProcessState_Success (Wait_fails err output) = False"
| "ProcessState_Success (Start_fails err) = False"

definition check :: "(string \<Rightarrow> cmd_run) \<Rightarrow> string \<Rightarrow> HealthState \<times> string \<times> error option" where
  "check sh c =
     (case sh c of
        Start_fails err \<Rightarrow> (NoState, [], Some err)
      | Wait_fails err output \<Rightarrow> (NoState, [], Some err)
      | Exits output \<Rightarrow>
          (if ProcessState_Success (sh c) = True then (Passing, output, None)
           else (Critical, output, None)))"

record health_Result =
  Result_ID :: string
  Node :: string
  Status :: HealthState
  Output :: string

text \<open>
  \<open>checkHealth\<close> drops the error of \<open>check\<close> and builds the result that it hands to
  \<open>writeToConsul\<close> (whose body is empty).
\<close>

definition checkHealth ::
  "(string \<Rightarrow> cmd_run) \<Rightarrow> string \<Rightarrow> string \<Rightarrow> string \<Rightarrow> health_Result" where
  "checkHealth sh manifest_id healthCheck node =
     (case check sh healthCheck of
        (healthstate, res, err) \<Rightarrow>
          \<lparr>Result_ID = manifest_id, Node = node, Status = healthstate, Output = res\<rparr>)"

text \<open>
  The classification in the words of the specification, for comparison: a probe is the
  HTTP status of the response or a transport error.
\<close>

datatype probe = Response nat | Transport_error

definition spec_classify :: "probe \<Rightarrow> HealthState" where
  "spec_classify p =
     (case p of
        Response code \<Rightarrow>
          (if 200 \<le> code \<and> code \<le> 299 then Passing
           else if code = 429 then Warning
           else Critical)
      | Transport_error \<Rightarrow> Critical)"

text \<open>
  Two status commands for evaluation, as functions of what the endpoint answers: one
  exits with a non-zero status on a response of 400 and above, the other exits with
  zero on every response; on a transport error both exit with a non-zero status.
\<close>

definition failing_curl :: "probe \<Rightarrow> string \<Rightarrow> cmd_run" where
  "failing_curl p c =
     (case p of
        Response code \<Rightarrow>
          (if code < 400 then Exits ''ok'' else Wait_fails (Errorf ''exit status 22'') [])
      | Transport_error \<Rightarrow> Wait_fails (Errorf ''exit status 7'') [])"

definition plain_curl :: "probe \<Rightarrow> string \<Rightarrow> cmd_run" where
  "plain_curl p c =
     (case p of
        Response code \<Rightarrow> Exits ''body''
      | Transport_error \<Rightarrow> Wait_fails (Errorf ''exit status 7'') [])"

section \<open>The roll store (package rollstore)\<close>

text \<open>
  \<open>rcf.ID\<close> is a string type. \<open>api.KVPair\<close> has the fields the code sets and reads; its
  \<open>ModifyIndex\<close> is a \<open>uint64\<close>.
\<close>

record Update =
  OldRC :: string
  NewRC :: string
  DesiredReplicas :: int
  MinimumReplicas :: int

record KVPair =
  Key :: string
  Value :: string
  ModifyIndex :: "64 word"

text \<open>
  Modelled from the spec: \<open>kp.RollPath\<close> and \<open>kp.ROLL_TREE\<close> are declared in another
  file of the repository; the layout of the store puts the update of a new RC at \<open>rolls/<newRcId>\<close>.
\<close>

definition ROLL_TREE :: string where
  "ROLL_TREE = ''rolls''"

definition RollPath :: "string \<Rightarrow> string" where
  "RollPath rcId = ROLL_TREE @ ''/'' @ rcId"

text \<open>
  \<open>Put\<close>. The client call \<open>kv.CAS\<close> and \<open>json.Marshal\<close> are parameters: \<open>CAS p t\<close> returns
  the success flag and the error of the call, and the store after it.
\<close>

definition Put ::
  "(KVPair \<Rightarrow> 't \<Rightarrow> (bool \<times> error option) \<times> 't) \<Rightarrow> (Update \<Rightarrow> error + string) \<Rightarrow> Update \<Rightarrow> 't
     \<Rightarrow> error option \<times> 't" where
  "Put CAS Marshal u t =
     (case Marshal u of
        Inl err \<Rightarrow> (Some err, t)
      | Inr b \<Rightarrow>
          (let key = RollPath (NewRC u) in
           case CAS \<lparr>Key = RollPath (NewRC u), Value = b, ModifyIndex = 0\<rparr> t of
             ((success, Some err), t') \<Rightarrow> (Some (KVError ''cas'' key err), t')
           | ((success, None), t') \<Rightarrow>
               (if \<not> success
                then (Some (Errorf (''update with new RC ID '' @ NewRC u @ '' already exists'')), t')
                else (None, t'))))"

text \<open>
  Modelled from the spec: the key-value server is outside the repository. Its store maps
  a key to the pair stored there. \<open>CAS(key, value, modifyIndex)\<close> succeeds only if the
  current index of the key equals the given one, and with index 0 only if the key does not
  exist; a successful write stores the pair under the next index of the server. A call
  that ends in a transient error (\<open>transient\<close>) changes nothing.
\<close>

record consul =
  kv :: "string \<rightharpoonup> KVPair"
  last_index :: "64 word"

definition consul_CAS :: "error option \<Rightarrow> KVPair \<Rightarrow> consul \<Rightarrow> (bool \<times> error option) \<times> consul" where
  "consul_CAS transient p t =
     (case transient of
        Some err \<Rightarrow> ((False, Some err), t)
      | None \<Rightarrow>
          (if (case kv t (Key p) of
                 None \<Rightarrow> ModifyIndex p = 0
               | Some q \<Rightarrow> ModifyIndex p \<noteq> 0 \<and> ModifyIndex p = ModifyIndex q)
           then ((True, None),
                 t\<lparr>kv := (kv t)(Key p \<mapsto> p\<lparr>ModifyIndex := last_index t + 1\<rparr>),
                   last_index := last_index t + 1\<rparr>)
           else ((False, None), t)))"

text \<open>A client that only records the pairs it is asked to write, latest first.\<close>

definition recording_CAS ::
  "bool \<times> error option \<Rightarrow> KVPair \<Rightarrow> KVPair list \<Rightarrow> (bool \<times> error option) \<times> KVPair list" where
  "recording_CAS answer p t = (answer, p # t)"

text \<open>
  \<open>Watch\<close>. Each turn of the goroutine's loop takes one branch of the \<open>select\<close>: the quit
  channel, or the timer, after which \<open>kv.List\<close> is called with the current index as
  \<open>WaitIndex\<close>. A \<open>Tick\<close> carries the answer of \<open>kv.List\<close> to each wait index: the error, or
  the listed pairs and \<open>meta.LastIndex\<close>. What the goroutine sends is returned in order;
  \<open>Closed\<close> stands for the deferred closing of both channels when the goroutine returns.
  A send is taken to complete (the channels are unbuffered and the receiver is not part of the
  store). \<open>json.Unmarshal\<close> is a parameter.
\<close>

datatype watch_event =
    Watch_quit
  | Tick "64 word \<Rightarrow> error + (KVPair list \<times> 64 word)"

datatype watch_send =
    OutCh "Update list"
  | ErrCh error
  | Closed

text \<open>The inner loop over the listed pairs: the sends on the error channel, and \<open>out\<close>.\<close>

fun unmarshal_loop ::
  "(string \<Rightarrow> error + Update) \<Rightarrow> KVPair list \<Rightarrow> Update list \<Rightarrow> watch_send list \<times> Update list" where
  "unmarshal_loop Unmarshal [] out = ([], out)"
| "unmarshal_loop Unmarshal (kvp # rest) out =
     (case Unmarshal (Value kvp) of
        Inl err \<Rightarrow>
          (case unmarshal_loop Unmarshal rest out of
             (sends, out') \<Rightarrow> (ErrCh err # sends, out'))
      | Inr next \<Rightarrow> unmarshal_loop Unmarshal rest (out @ [next]))"

fun Watch ::
  "(string \<Rightarrow> error + Update) \<Rightarrow> 64 word \<Rightarrow> watch_event list \<Rightarrow> watch_send list" where
  "Watch Unmarshal currentIndex [] = []"
| "Watch Unmarshal currentIndex (Watch_quit # es) = [Closed]"
| "Watch Unmarshal currentIndex (Tick List # es) =
     (case List currentIndex of
        Inl err \<Rightarrow> ErrCh (KVError ''list'' ROLL_TREE err) # Watch Unmarshal currentIndex es
      | Inr (listed, LastIndex) \<Rightarrow>
          (case unmarshal_loop Unmarshal listed [] of
             (sends, out) \<Rightarrow> sends @ OutCh out # Watch Unmarshal LastIndex es))"

text \<open>The updates among the listed pairs, and the errors of the pairs that do not parse.\<close>

definition parsed_updates :: "(string \<Rightarrow> error + Update) \<Rightarrow> KVPair list \<Rightarrow> Update list" where
  "parsed_updates Unmarshal listed =
     concat (map (\<lambda>kvp. case Unmarshal (Value kvp) of Inl err \<Rightarrow> [] | Inr u \<Rightarrow> [u]) listed)"

definition parse_errors :: "(string \<Rightarrow> error + Update) \<Rightarrow> KVPair list \<Rightarrow> error list" where
  "parse_errors Unmarshal listed =
     concat (map (\<lambda>kvp. case Unmarshal (Value kvp) of Inl err \<Rightarrow> [err] | Inr u \<Rightarrow> []) listed)"

text \<open>
  A codec for evaluation: an update is written as its two RC ids separated by a comma,
  and a value with another number of fields does not parse; the replica counts are fixed.
\<close>

definition test_Marshal :: "Update \<Rightarrow> error + string" where
  "test_Marshal u = Inr (OldRC u @ '','' @ NewRC u)"

definition test_Unmarshal :: "string \<Rightarrow> error + Update" where
  "test_Unmarshal b =
     (case split_ids [] b of
        [old, new] \<Rightarrow> Inr \<lparr>OldRC = old, NewRC = new, DesiredReplicas = 3, MinimumReplicas = 2\<rparr>
      | _ \<Rightarrow> Inl (Errorf ''invalid character''))"

definition test_update :: Update where
  "test_update = \<lparr>OldRC = ''rc1'', NewRC = ''rc2'', DesiredReplicas = 3, MinimumReplicas = 2\<rparr>"

definition empty_consul :: consul where
  "empty_consul = \<lparr>kv = Map.empty, last_index = 10\<rparr>"

definition roll_pair :: "string \<Rightarrow> string \<Rightarrow> KVPair" where
  "roll_pair new b = \<lparr>Key = RollPath new, Value = b, ModifyIndex = 11\<rparr>"

text \<open>
  For stating what \<open>Watch\<close> sends: the answers of \<open>kv.List\<close> that the loop receives, each
  for the wait index the loop has reached, up to the quit signal; and what is to be sent
  for one answer.
\<close>

fun is_quit :: "watch_event \<Rightarrow> bool" where
  "is_quit Watch_quit = True"
| "is_quit (Tick List) = False"

fun listings :: "64 word \<Rightarrow> watch_event list \<Rightarrow> (error + (KVPair list \<times> 64 word)) list" where
  "listings currentIndex [] = []"
| "listings currentIndex (Watch_quit # es) = []"
| "listings currentIndex (Tick List # es) =
     List currentIndex
     # listings (case List currentIndex of Inl err \<Rightarrow> currentIndex | Inr (listed, i) \<Rightarrow> i) es"

definition tick_sends ::
  "(string \<Rightarrow> error + Update) \<Rightarrow> error + (KVPair list \<times> 64 word) \<Rightarrow> watch_send list" where
  "tick_sends Unmarshal answer =
     (case answer of
        Inl err \<Rightarrow> [ErrCh (KVError ''list'' ROLL_TREE err)]
      | Inr (listed, i) \<Rightarrow>
          map ErrCh (parse_errors Unmarshal listed) @ [OutCh (parsed_updates Unmarshal listed)])"

definition test_events :: "watch_event list" where
  "test_events =
     [Tick (\<lambda>i. Inr ([roll_pair ''rc2'' ''rc1,rc2'', roll_pair ''rc9'' ''garbage''], 12)),
      Tick (\<lambda>i. Inl (Errorf ''connection reset'')),
      Tick (\<lambda>i. if i = 12 then Inr ([roll_pair ''rc2'' ''rc1,rc2''], 13) else Inr ([], 0)),
      Watch_quit,
      Tick (\<lambda>i. Inr ([], 14))]"

section \<open>Properties of GetMatches\<close>

lemma fill_labeled_map:
  "length labeled = i + length ss \<Longrightarrow>
   fill_labeled i ss labelType labeled =
     take i labeled @ map (\<lambda>s. \<lparr>ID = s, LabelType = labelType, Labels = Map.empty\<rparr>) ss"
proof (induction ss arbitrary: i labeled)
  case Nil
  then show ?case by simp
next
  case (Cons s ss)
  let ?v = "\<lparr>ID = s, LabelType = labelType, Labels = Map.empty\<rparr>"
  have len: "length (labeled[i := ?v]) = Suc i + length ss"
    using Cons.prems by simp
  have lt: "i < length labeled"
    using Cons.prems by simp
  have "take (Suc i) (labeled[i := ?v]) = take i labeled @ [?v]"
    using lt by (simp add: take_Suc_conv_app_nth)
  then show ?case
    using Cons.IH [OF len] by simp
qed

text \<open>
  C10. A successful \<open>GetMatches\<close> returns one \<open>Labeled\<close> per string of the decoded response,
  in the same order, with that string as \<open>ID\<close>, the requested type as \<open>LabelType\<close> and an
  empty label set; when the GET fails or the body does not decode, it returns the empty
  slice together with that error.
\<close>

theorem GetMatches_result:
  "(client h (matches_url h selector labelType) = Inr body \<and> decode h body = Inr matches \<longrightarrow>
      GetMatches h selector labelType =
        (map (\<lambda>s. \<lparr>ID = s, LabelType = labelType, Labels = Map.empty\<rparr>) matches, None))
   \<and> (client h (matches_url h selector labelType) = Inl err \<longrightarrow>
        GetMatches h selector labelType = ([], Some err))
   \<and> (client h (matches_url h selector labelType) = Inr body \<and> decode h body = Inl err \<longrightarrow>
        GetMatches h selector labelType = ([], Some err))"
proof -
  have "fill_labeled 0 matches labelType (replicate (length matches) Labeled_zero) =
        map (\<lambda>s. \<lparr>ID = s, LabelType = labelType, Labels = Map.empty\<rparr>) matches"
    using fill_labeled_map [of "replicate (length matches) Labeled_zero" 0 matches labelType]
    by simp
  then show ?thesis
    by (simp add: GetMatches_def matches_url_def Let_def)
qed

theorem GetMatches_result_witness:
  "GetMatches (test_applicator ''web,app'') ''role=db'' ''pod'' =
     ([\<lparr>ID = ''web'', LabelType = ''pod'', Labels = Map.empty\<rparr>,
       \<lparr>ID = ''app'', LabelType = ''pod'', Labels = Map.empty\<rparr>], None)
   \<and> GetMatches (test_applicator ''down'') ''role=db'' ''pod'' =
       ([], Some (Errorf ''connection refused''))
   \<and> GetMatches (test_applicator []) ''role=db'' ''pod'' = ([], Some (Errorf ''EOF''))"
  using GetMatches_result [of "test_applicator ''web,app''" "''role=db''" "''pod''"
          "''web,app''" "[''web'', ''app'']" "Errorf ''EOF''"]
        GetMatches_result [of "test_applicator ''down''" "''role=db''" "''pod''"
          "''down''" "[]" "Errorf ''connection refused''"]
        GetMatches_result [of "test_applicator []" "''role=db''" "''pod''"
          "[]" "[]" "Errorf ''EOF''"]
  by (simp add: test_applicator_def)

section \<open>Properties of getLaunchable and Install\<close>

lemma getLaunchable_Inr_type:
  "getLaunchable env pod st u rp = Inr l \<Longrightarrow>
   LaunchableType st = ''hoist'' \<or> LaunchableType st = ''opencontainer''"
  by (simp add: getLaunchable_def Let_def split: if_splits)

lemma getLaunchable_Inl:
  "getLaunchable env pod st u rp = Inl e \<Longrightarrow>
   e = UnsupportedLaunchableType (LaunchableType st) \<and> LaunchableType st \<noteq> ''hoist''
   \<and> \<not> (ExperimentalOpencontainer env \<and> LaunchableType st = ''opencontainer'')"
  by (simp add: getLaunchable_def Let_def split: if_splits)

lemma getLaunchable_unsupported:
  "LaunchableType st \<noteq> ''hoist'' \<Longrightarrow> LaunchableType st \<noteq> ''opencontainer'' \<Longrightarrow>
   getLaunchable env pod st u rp = Inl (UnsupportedLaunchableType (LaunchableType st))"
  by (simp add: getLaunchable_def Let_def)

text \<open>
  The type \<open>opencontainer\<close> is constructed exactly when the process-wide flag
  \<open>ExperimentalOpencontainer\<close> is set; without the flag it is unsupported like any other.
\<close>

lemma getLaunchable_opencontainer_flag:
  "LaunchableType st = ''opencontainer'' \<Longrightarrow>
   (\<exists>c. getLaunchable env pod st u rp = Inr (Opencontainer c)) = ExperimentalOpencontainer env"
  by (simp add: getLaunchable_def Let_def)

lemma Launchables_loop_Inr_types:
  "Launchables_loop env pod m sts acc = Inr ls \<Longrightarrow>
   \<forall>st \<in> set sts. LaunchableType st = ''hoist'' \<or> LaunchableType st = ''opencontainer''"
proof (induction sts arbitrary: acc)
  case Nil
  then show ?case by simp
next
  case (Cons st sts)
  then show ?case
    by (auto split: sum.splits dest: getLaunchable_Inr_type)
qed

lemma Launchables_loop_unsupported:
  "st \<in> set sts \<Longrightarrow> LaunchableType st \<noteq> ''hoist'' \<Longrightarrow>
   LaunchableType st \<noteq> ''opencontainer'' \<Longrightarrow>
   \<exists>t. Launchables_loop env pod m sts acc = Inl (UnsupportedLaunchableType t)"
proof (induction sts arbitrary: acc)
  case Nil
  then show ?case by simp
next
  case (Cons s sts)
  show ?case
  proof (cases "getLaunchable env pod s (RunAsUser m) (RestartPolicy m)")
    case (Inl e)
    then show ?thesis using getLaunchable_Inl [OF Inl] by simp
  next
    case (Inr l)
    have "s \<noteq> st"
      using getLaunchable_Inr_type [OF Inr] Cons.prems by auto
    then have "st \<in> set sts" using Cons.prems by simp
    then show ?thesis
      using Cons.IH [of "acc @ [l]"] Cons.prems Inr by simp
  qed
qed

text \<open>
  C9. Constructing the launchable of a stanza succeeds only for the types \<open>hoist\<close> and
  \<open>opencontainer\<close>, and for every other type tag it fails with the
  unsupported-launchable-type error of that tag. Hence \<open>Install\<close> succeeds only for
  manifests all of whose stanzas have one of the two types; a manifest with a stanza of
  another type fails to install, and once the uid and gid are resolved and the pod home is
  created, the failure is an unsupported-launchable-type error.
\<close>

theorem getLaunchable_supported_types:
  "(getLaunchable env pod st u rp = Inr l \<longrightarrow>
      LaunchableType st = ''hoist'' \<or> LaunchableType st = ''opencontainer'')
   \<and> (LaunchableType st \<noteq> ''hoist'' \<and> LaunchableType st \<noteq> ''opencontainer'' \<longrightarrow>
        getLaunchable env pod st u rp = Inl (UnsupportedLaunchableType (LaunchableType st)))
   \<and> (Pod_Install env os le pod m = None \<longrightarrow>
        (\<forall>s \<in> set (LaunchableStanzas m).
           LaunchableType s = ''hoist'' \<or> LaunchableType s = ''opencontainer''))
   \<and> (st \<in> set (LaunchableStanzas m) \<and> LaunchableType st \<noteq> ''hoist''
        \<and> LaunchableType st \<noteq> ''opencontainer'' \<longrightarrow>
        Pod_Install env os le pod m \<noteq> None
        \<and> (user_IDs os (RunAsUser m) = Inr ids \<and> MkdirChownAll_err os (path pod) = None \<longrightarrow>
             (\<exists>t. Pod_Install env os le pod m = Some (UnsupportedLaunchableType t))))"
proof (intro conjI impI)
  assume "getLaunchable env pod st u rp = Inr l"
  then show "LaunchableType st = ''hoist'' \<or> LaunchableType st = ''opencontainer''"
    by (rule getLaunchable_Inr_type)
next
  assume "LaunchableType st \<noteq> ''hoist'' \<and> LaunchableType st \<noteq> ''opencontainer''"
  then show "getLaunchable env pod st u rp = Inl (UnsupportedLaunchableType (LaunchableType st))"
    by (simp add: getLaunchable_unsupported)
next
  assume ok: "Pod_Install env os le pod m = None"
  then obtain ls where "Launchables env pod m = Inr ls"
    by (auto simp: Pod_Install_def split: sum.splits option.splits)
  then show "\<forall>s \<in> set (LaunchableStanzas m).
      LaunchableType s = ''hoist'' \<or> LaunchableType s = ''opencontainer''"
    unfolding Launchables_def by (rule Launchables_loop_Inr_types)
next
  assume bad: "st \<in> set (LaunchableStanzas m) \<and> LaunchableType st \<noteq> ''hoist''
        \<and> LaunchableType st \<noteq> ''opencontainer''"
  then obtain t where t: "Launchables env pod m = Inl (UnsupportedLaunchableType t)"
    unfolding Launchables_def using Launchables_loop_unsupported by blast
  then show "Pod_Install env os le pod m \<noteq> None"
    by (simp add: Pod_Install_def split: sum.splits option.splits)
  assume "user_IDs os (RunAsUser m) = Inr ids \<and> MkdirChownAll_err os (path pod) = None"
  then show "\<exists>t. Pod_Install env os le pod m = Some (UnsupportedLaunchableType t)"
    using t by (simp add: Pod_Install_def)
qed

theorem getLaunchable_supported_types_witness:
  "(\<exists>l. getLaunchable (test_env False) test_pod (test_stanza ''app'' ''hoist'') ''web'' ''always''
          = Inr l)
   \<and> getLaunchable (test_env True) test_pod (test_stanza ''db'' ''docker'') ''web'' ''always''
       = Inl (UnsupportedLaunchableType ''docker'')
   \<and> Pod_Install (test_env False) test_os (test_launch_env [] []) test_pod two_hoist = None
   \<and> Pod_Install (test_env True) test_os (test_launch_env [] []) test_pod one_docker
       = Some (UnsupportedLaunchableType ''docker'')"
  using getLaunchable_supported_types [of "test_env False" test_pod "test_stanza ''app'' ''hoist''"
          "''web''" "''always''"
          "projr (getLaunchable (test_env False) test_pod (test_stanza ''app'' ''hoist'')
                    ''web'' ''always'')"
          test_os "test_launch_env [] []" two_hoist "(1000, 1000)"]
        getLaunchable_supported_types [of "test_env True" test_pod "test_stanza ''db'' ''docker''"
          "''web''" "''always''"
          "projr (getLaunchable (test_env False) test_pod (test_stanza ''app'' ''hoist'')
                    ''web'' ''always'')"
          test_os "test_launch_env [] []" one_docker "(1000, 1000)"]
  by (simp add: Pod_Install_def Launchables_def getLaunchable_def EnvDir_def
        test_env_def test_os_def test_launch_env_def test_pod_def test_stanza_def
        test_manifest_def two_hoist_def one_docker_def Let_def)

section \<open>Properties of Launch\<close>

lemma activate_loop_Inl:
  "activate_loop le ls acc = Inl e \<Longrightarrow> \<exists>l \<in> set ls. MakeCurrent le l = Some e"
  by (induction ls arbitrary: acc) (auto split: option.splits)

lemma activate_loop_ok:
  "\<forall>l \<in> set ls. MakeCurrent le l = None \<Longrightarrow>
   activate_loop le ls acc = Inr (acc @ map (\<lambda>l. snd (PostActivate le l) = None) ls)"
  by (induction ls arbitrary: acc) (auto split: option.splits)

lemma start_loop_step:
  "start_loop le i (l # ls) successes success =
     start_loop le (Suc i) ls successes (success \<and> (successes ! i \<longrightarrow> started le l))"
  by (cases "Launchable_Launch le l"; cases "the (Launchable_Launch le l)")
     (auto simp: started_def)

lemma start_loop_eq:
  "length pre = i \<Longrightarrow>
   start_loop le i ls (pre @ map ok ls) success =
     (success \<and> (\<forall>l \<in> set ls. ok l \<longrightarrow> started le l))"
proof (induction ls arbitrary: i pre success)
  case Nil
  then show ?case by simp
next
  case (Cons l ls)
  have nth: "(pre @ map ok (l # ls)) ! i = ok l"
    using Cons.prems by (simp add: nth_append)
  have "start_loop le (Suc i) ls ((pre @ [ok l]) @ map ok ls) (success \<and> (ok l \<longrightarrow> started le l)) =
        ((success \<and> (ok l \<longrightarrow> started le l)) \<and> (\<forall>x \<in> set ls. ok x \<longrightarrow> started le x))"
    using Cons.prems by (intro Cons.IH) simp
  then show ?case
    by (simp only: start_loop_step nth) auto
qed

lemma Pod_Launch_reached:
  assumes "Launchables env pod m = Inr ls"
    and "fst (snd (WriteCurrentManifest os m cur)) = None"
    and "\<forall>l \<in> set ls. MakeCurrent le l = None"
  shows "Pod_Launch env os le pod m cur =
           (\<forall>l \<in> set ls. snd (PostActivate le l) = None \<longrightarrow> started le l, None,
            current_manifest (last (snd (snd (WriteCurrentManifest os m cur)))))"
proof -
  obtain p w tr where w: "WriteCurrentManifest os m cur = (p, w, tr)"
    by (cases "WriteCurrentManifest os m cur") auto
  have wn: "w = None" using assms(2) w by simp
  have act: "activate_loop le ls [] = Inr (map (\<lambda>l. snd (PostActivate le l) = None) ls)"
    using activate_loop_ok [OF assms(3), of "[]"] by simp
  have st: "start_loop le 0 ls (map (\<lambda>l. snd (PostActivate le l) = None) ls) True =
        (\<forall>l \<in> set ls. snd (PostActivate le l) = None \<longrightarrow> started le l)"
    using start_loop_eq [of "[]" 0 le ls "\<lambda>l. snd (PostActivate le l) = None" True] by simp
  show ?thesis
    by (simp add: Pod_Launch_def assms(1) w wn act st Let_def)
qed

lemma Pod_Launch_error:
  assumes "Pod_Launch env os le pod m cur = (success, Some err, cur')"
  shows "Launchables env pod m = Inl err
     \<or> fst (snd (WriteCurrentManifest os m cur)) = Some err
     \<or> (\<exists>ls. Launchables env pod m = Inr ls \<and> (\<exists>l \<in> set ls. MakeCurrent le l = Some err))"
proof (cases "Launchables env pod m")
  case (Inl e)
  then show ?thesis using assms by (simp add: Pod_Launch_def)
next
  case (Inr ls)
  obtain p w tr where w: "WriteCurrentManifest os m cur = (p, w, tr)"
    by (cases "WriteCurrentManifest os m cur") auto
  show ?thesis
  proof (cases w)
    case (Some e)
    then show ?thesis using assms Inr w by (simp add: Pod_Launch_def Let_def)
  next
    case None
    show ?thesis
    proof (cases "activate_loop le ls []")
      case (Inl e)
      then have "e = err" using assms Inr w None by (simp add: Pod_Launch_def Let_def)
      then show ?thesis using activate_loop_Inl [OF Inl] Inr by auto
    next
      case (Inr ss)
      then show ?thesis using assms \<open>Launchables env pod m = Inr ls\<close> w None
        by (simp add: Pod_Launch_def Let_def)
    qed
  qed
qed

lemma activate_loop_cong:
  "MakeCurrent le' = MakeCurrent le \<Longrightarrow> PostActivate le' = PostActivate le \<Longrightarrow>
   activate_loop le' ls acc = activate_loop le ls acc"
  by (induction ls arbitrary: acc) (auto split: option.splits)

lemma start_loop_cong:
  assumes "\<forall>l. started le' l = started le l"
  shows "start_loop le' i ls successes success = start_loop le i ls successes success"
proof (induction ls arbitrary: i success)
  case Nil
  show ?case by simp
next
  case (Cons l ls)
  have "started le' l = started le l" using assms by simp
  then show ?case by (simp only: start_loop_step Cons.IH)
qed

lemma Pod_Launch_cong:
  assumes "MakeCurrent le' = MakeCurrent le" "PostActivate le' = PostActivate le"
    "\<forall>l. started le' l = started le l"
  shows "Pod_Launch env os le' pod m cur = Pod_Launch env os le pod m cur"
  using assms
  by (simp add: Pod_Launch_def Let_def activate_loop_cong [OF assms(1,2)]
        start_loop_cong [OF assms(3)] cong: sum.case_cong option.case_cong)

text \<open>
  C4. \<open>Pod.Launch\<close> returns a non-nil error only when \<open>Launchables\<close> fails to construct a
  launchable, when \<open>WriteCurrentManifest\<close> returns an error, or when \<open>MakeCurrent\<close> of a
  launchable fails. When none of these happens the error is nil and \<open>success\<close> says that
  every launchable whose post-activate succeeded was started: a launchable whose
  \<open>Launch\<close> fails with anything but an enable error makes \<open>success\<close> false, and an enable
  error gives the same result as no error at all.
\<close>

theorem Pod_Launch_errors:
  "(Pod_Launch env os le pod m cur = (success, Some err, cur') \<longrightarrow>
      Launchables env pod m = Inl err
      \<or> fst (snd (WriteCurrentManifest os m cur)) = Some err
      \<or> (\<exists>ls. Launchables env pod m = Inr ls \<and> (\<exists>l \<in> set ls. MakeCurrent le l = Some err)))
   \<and> (Launchables env pod m = Inr ls \<and> fst (snd (WriteCurrentManifest os m cur)) = None
        \<and> (\<forall>l \<in> set ls. MakeCurrent le l = None) \<longrightarrow>
        fst (snd (Pod_Launch env os le pod m cur)) = None
        \<and> fst (Pod_Launch env os le pod m cur) =
              (\<forall>l \<in> set ls. snd (PostActivate le l) = None \<longrightarrow> started le l)
        \<and> (l \<in> set ls \<and> snd (PostActivate le l) = None \<and> Launchable_Launch le l = Some e
             \<and> \<not> is_EnableError e \<longrightarrow>
             fst (Pod_Launch env os le pod m cur) = False))
   \<and> Pod_Launch env os (le\<lparr>Launchable_Launch := (Launchable_Launch le)(k := Some (EnableError msg))\<rparr>)
         pod m cur =
       Pod_Launch env os (le\<lparr>Launchable_Launch := (Launchable_Launch le)(k := None)\<rparr>) pod m cur"
proof (intro conjI impI)
  assume "Pod_Launch env os le pod m cur = (success, Some err, cur')"
  then show "Launchables env pod m = Inl err
      \<or> fst (snd (WriteCurrentManifest os m cur)) = Some err
      \<or> (\<exists>ls. Launchables env pod m = Inr ls \<and> (\<exists>l \<in> set ls. MakeCurrent le l = Some err))"
    by (rule Pod_Launch_error)
next
  assume h: "Launchables env pod m = Inr ls \<and> fst (snd (WriteCurrentManifest os m cur)) = None
        \<and> (\<forall>l \<in> set ls. MakeCurrent le l = None)"
  then have eq: "Pod_Launch env os le pod m cur =
           (\<forall>l \<in> set ls. snd (PostActivate le l) = None \<longrightarrow> started le l, None,
            current_manifest (last (snd (snd (WriteCurrentManifest os m cur)))))"
    by (intro Pod_Launch_reached) simp_all
  show "fst (snd (Pod_Launch env os le pod m cur)) = None"
    by (simp add: eq)
  show "fst (Pod_Launch env os le pod m cur) =
          (\<forall>l \<in> set ls. snd (PostActivate le l) = None \<longrightarrow> started le l)"
    by (simp add: eq)
  assume "l \<in> set ls \<and> snd (PostActivate le l) = None \<and> Launchable_Launch le l = Some e
             \<and> \<not> is_EnableError e"
  then have "l \<in> set ls" "snd (PostActivate le l) = None" "\<not> started le l"
    by (simp_all add: started_def)
  then show "fst (Pod_Launch env os le pod m cur) = False"
    unfolding eq by auto
next
  show "Pod_Launch env os (le\<lparr>Launchable_Launch := (Launchable_Launch le)(k := Some (EnableError msg))\<rparr>)
         pod m cur =
       Pod_Launch env os (le\<lparr>Launchable_Launch := (Launchable_Launch le)(k := None)\<rparr>) pod m cur"
    by (rule Pod_Launch_cong) (simp_all add: started_def)
qed

theorem Pod_Launch_errors_witness:
  "Pod_Launch (test_env False) test_os (test_launch_env [] []) test_pod one_docker None =
     (False, Some (UnsupportedLaunchableType ''docker''), None)
   \<and> Launchables (test_env False) test_pod one_docker = Inl (UnsupportedLaunchableType ''docker'')
   \<and> Pod_Launch (test_env False) test_os (test_launch_env ''web__db'' ''web__app'') test_pod
         two_hoist None =
       (False, None, Some \<lparr>content = ''id: web'', owner = (1000, 1000)\<rparr>)
   \<and> Pod_Launch (test_env False) test_os (test_launch_env [] ''web__app'') test_pod
         two_hoist None =
       (True, None, Some \<lparr>content = ''id: web'', owner = (1000, 1000)\<rparr>)"
  using Pod_Launch_errors [of "test_env False" test_os "test_launch_env [] []" test_pod one_docker
          None False "UnsupportedLaunchableType ''docker''" None
          "projr (Launchables (test_env False) test_pod two_hoist)"]
        Pod_Launch_errors [of "test_env False" test_os "test_launch_env ''web__db'' ''web__app''"
          test_pod two_hoist None False "UnsupportedLaunchableType ''docker''" None
          "projr (Launchables (test_env False) test_pod two_hoist)"
          "projr (Launchables (test_env False) test_pod two_hoist) ! 1"
          "StartError ''sv start failed''"]
        Pod_Launch_errors [of "test_env False" test_os "test_launch_env [] ''web__app''"
          test_pod two_hoist None False "UnsupportedLaunchableType ''docker''" None
          "projr (Launchables (test_env False) test_pod two_hoist)"]
  by (simp add: Pod_Launch_def Launchables_def getLaunchable_def EnvDir_def
        WriteCurrentManifest_def stage_last_manifest_def open_trunc_def write_bytes_def
        chown_current_def buildRunitServices_def started_def
        test_env_def test_os_def test_launch_env_def test_pod_def test_stanza_def
        test_manifest_def two_hoist_def one_docker_def Let_def)

section \<open>Properties of WriteCurrentManifest\<close>

lemmas WriteCurrentManifest_defs =
  WriteCurrentManifest_def stage_last_manifest_def open_trunc_def write_bytes_def
  chown_current_def revertCurrentManifest_def Let_def

lemma WriteCurrentManifest_trace_states:
  "s \<in> set (snd (snd (WriteCurrentManifest os m cur))) \<Longrightarrow> previous_or_prefix cur (Bytes m) s"
  by (auto simp: WriteCurrentManifest_defs previous_or_prefix_def take_is_prefix
      split: sum.splits option.splits if_splits prod.splits)

lemma WriteCurrentManifest_success:
  "WriteCurrentManifest os m cur = (p, None, tr) \<Longrightarrow> p \<noteq> [] \<Longrightarrow>
   map_option content (current_manifest (last tr)) = Some (Bytes m)"
  by (auto simp: WriteCurrentManifest_defs
      split: sum.splits option.splits if_splits prod.splits)

text \<open>
  C1, as the code has it. \<open>WriteCurrentManifest\<close> stages the previous file to a temporary
  copy and then truncates and writes \<open>current_manifest.yaml\<close> in place. At every point
  during and after the call the file is absent, or has the bytes of the previous manifest,
  or has a prefix of the new manifest's bytes (empty after the truncating open, partial
  while or after a failed write). When the call returns the path of the staged copy and no
  error, the file holds the complete new manifest.
\<close>

theorem WriteCurrentManifest_observable_states:
  "(\<forall>s \<in> set (snd (snd (WriteCurrentManifest os m cur))). previous_or_prefix cur (Bytes m) s)
   \<and> (WriteCurrentManifest os m cur = (p, None, tr) \<and> p \<noteq> [] \<longrightarrow>
        map_option content (current_manifest (last tr)) = Some (Bytes m))"
  using WriteCurrentManifest_trace_states WriteCurrentManifest_success by blast

theorem WriteCurrentManifest_observable_states_witness:
  "previous_or_prefix (Some old_file) (Bytes new_manifest)
     (snd (snd (WriteCurrentManifest test_os new_manifest (Some old_file))) ! 2)
   \<and> current_manifest (snd (snd (WriteCurrentManifest test_os new_manifest (Some old_file))) ! 2)
       = Some \<lparr>content = [], owner = (1000, 1000)\<rparr>
   \<and> fst (WriteCurrentManifest test_os new_manifest (Some old_file))
       = ''/tmp/manifests1/last_manifest.yaml''
   \<and> fst (snd (WriteCurrentManifest test_os new_manifest (Some old_file))) = None
   \<and> map_option content (current_manifest
         (last (snd (snd (WriteCurrentManifest test_os new_manifest (Some old_file))))))
       = Some ''id: web, v2''"
  using WriteCurrentManifest_observable_states [of test_os new_manifest "Some old_file"
          "fst (WriteCurrentManifest test_os new_manifest (Some old_file))"
          "snd (snd (WriteCurrentManifest test_os new_manifest (Some old_file)))"]
  by (simp add: WriteCurrentManifest_defs previous_or_prefix_def test_os_def test_stanza_def
        test_manifest_def old_file_def new_manifest_def)

text \<open>
  C1 as stated fails. In a run in which every call succeeds, an observer finds the file
  empty between the truncating open and the write, which is neither the previous nor the
  new manifest. In a first launch whose write fails after four bytes, the partial file is
  still there when \<open>WriteCurrentManifest\<close> has returned: there is no staged copy to restore.
\<close>

theorem WriteCurrentManifest_partial_write_observable:
  "\<not> list_all (manifest_file_complete [content old_file, Bytes new_manifest])
        (snd (snd (WriteCurrentManifest test_os new_manifest (Some old_file))))
   \<and> \<not> manifest_file_complete [Bytes new_manifest]
         (last (snd (snd (WriteCurrentManifest write_fails new_manifest None))))
   \<and> current_manifest (last (snd (snd (WriteCurrentManifest write_fails new_manifest None))))
       = Some \<lparr>content = ''id: '', owner = (0, 0)\<rparr>"
  by (simp add: WriteCurrentManifest_defs manifest_file_complete_def test_os_def test_stanza_def
        test_manifest_def old_file_def new_manifest_def write_fails_def)

text \<open>
  C2, as the code has it. With a current manifest in place and the temporary directory
  created: when opening or writing fails, the copy was staged and the rename succeeds, the
  file is the staged copy again, with the previous contents. When the uid and gid cannot
  be resolved or the ownership cannot be changed, the error is returned and the newly
  written manifest stays in place: the code does not revert a write that succeeded.
\<close>

theorem WriteCurrentManifest_restore:
  "cur = Some f \<and> TempDir os = Inr d \<and> WriteCurrentManifest os m cur = (p, err, tr) \<longrightarrow>
     ((OpenFile_err os \<noteq> None \<or> Write_fail os \<noteq> None) \<and> URICopy_err os = None
        \<and> Rename_err os = None \<longrightarrow>
        current_manifest (last tr) = Some \<lparr>content = content f, owner = euid os\<rparr>)
     \<and> (copy_passed os \<and> OpenFile_err os = None \<and> Write_fail os = None
          \<and> (user_IDs os (RunAsUser m) = Inl e
               \<or> (user_IDs os (RunAsUser m) = Inr ids \<and> Chown_err os = Some e)) \<longrightarrow>
          err = Some e \<and> map_option content (current_manifest (last tr)) = Some (Bytes m))"
  by (auto simp: WriteCurrentManifest_defs copy_passed_def
      split: sum.splits option.splits if_splits prod.splits)

theorem WriteCurrentManifest_restore_witness:
  "current_manifest (last (snd (snd (WriteCurrentManifest write_fails new_manifest (Some old_file)))))
     = Some \<lparr>content = ''id: web, v1'', owner = (0, 0)\<rparr>
   \<and> current_manifest (last (snd (snd (WriteCurrentManifest open_fails new_manifest (Some old_file)))))
       = Some \<lparr>content = ''id: web, v1'', owner = (0, 0)\<rparr>
   \<and> fst (snd (WriteCurrentManifest chown_fails new_manifest (Some old_file)))
       = Some (Errorf ''operation not permitted'')
   \<and> map_option content (current_manifest
         (last (snd (snd (WriteCurrentManifest chown_fails new_manifest (Some old_file))))))
       = Some ''id: web, v2''"
  using WriteCurrentManifest_restore [of "Some old_file" old_file write_fails "''/tmp/manifests1''"
          new_manifest
          "fst (WriteCurrentManifest write_fails new_manifest (Some old_file))"
          "fst (snd (WriteCurrentManifest write_fails new_manifest (Some old_file)))"
          "snd (snd (WriteCurrentManifest write_fails new_manifest (Some old_file)))"
          "Errorf ''operation not permitted''" "(1000, 1000)"]
        WriteCurrentManifest_restore [of "Some old_file" old_file open_fails "''/tmp/manifests1''"
          new_manifest
          "fst (WriteCurrentManifest open_fails new_manifest (Some old_file))"
          "fst (snd (WriteCurrentManifest open_fails new_manifest (Some old_file)))"
          "snd (snd (WriteCurrentManifest open_fails new_manifest (Some old_file)))"
          "Errorf ''operation not permitted''" "(1000, 1000)"]
        WriteCurrentManifest_restore [of "Some old_file" old_file chown_fails "''/tmp/manifests1''"
          new_manifest
          "fst (WriteCurrentManifest chown_fails new_manifest (Some old_file))"
          "fst (snd (WriteCurrentManifest chown_fails new_manifest (Some old_file)))"
          "snd (snd (WriteCurrentManifest chown_fails new_manifest (Some old_file)))"
          "Errorf ''operation not permitted''" "(1000, 1000)"]
  by (simp add: WriteCurrentManifest_defs copy_passed_def test_os_def test_stanza_def
        test_manifest_def old_file_def new_manifest_def chown_fails_def write_fails_def
        open_fails_def)

text \<open>
  C2 as stated fails for the ownership step: with a current manifest in place and a
  failing \<open>Chown\<close>, the error is returned and the file holds the new manifest, not the
  previous one.
\<close>

theorem WriteCurrentManifest_chown_failure_not_restored:
  "fst (snd (WriteCurrentManifest chown_fails new_manifest (Some old_file)))
     = Some (Errorf ''operation not permitted'')
   \<and> map_option content (current_manifest
         (last (snd (snd (WriteCurrentManifest chown_fails new_manifest (Some old_file))))))
       = Some ''id: web, v2''
   \<and> map_option content (current_manifest
         (last (snd (snd (WriteCurrentManifest chown_fails new_manifest (Some old_file))))))
       \<noteq> Some (content old_file)"
  by (simp add: WriteCurrentManifest_defs test_os_def test_stanza_def test_manifest_def
        old_file_def new_manifest_def chown_fails_def)

section \<open>Further evaluations of WriteCurrentManifest\<close>

text \<open>
  When the temporary directory cannot be created, the error is returned and nothing has
  been touched. When opening fails and the staged copy is renamed back, the error that
  \<open>WriteCurrentManifest\<close> returns is the one of the revert, which is nil.
\<close>

lemma WriteCurrentManifest_tempdir_failure:
  "WriteCurrentManifest tempdir_fails new_manifest (Some old_file) =
     ([], Some (Errorf ''could not create a tempdir to write old manifest''),
      [\<lparr>current_manifest = Some old_file, last_manifest = None\<rparr>])"
  by (simp add: WriteCurrentManifest_defs tempdir_fails_def test_os_def)

lemma WriteCurrentManifest_open_failure_returns_revert_error:
  "fst (snd (WriteCurrentManifest open_fails new_manifest (Some old_file))) = None
   \<and> fst (WriteCurrentManifest open_fails new_manifest (Some old_file)) = []"
  by (simp add: WriteCurrentManifest_defs open_fails_def test_os_def old_file_def)

section \<open>Properties of the pod worker\<close>

lemma installAndLaunchPod_no_launch_with_current:
  "CurrentManifest pod (snd (Install pod m s)) = (Inr c, s2) \<Longrightarrow>
   Call_Launch m' \<notin> set (fst (snd (installAndLaunchPod SHA pod m s)))"
  by (auto simp: installAndLaunchPod_def Let_def split: prod.splits option.splits sum.splits)

lemma installAndLaunchPod_same_SHA:
  "Install pod m s = (None, s1) \<Longrightarrow> CurrentManifest pod s1 = (Inr c, s2) \<Longrightarrow>
   SHA c = SHA m \<Longrightarrow>
   installAndLaunchPod SHA pod m s = (True, [Call_Install m, Call_CurrentManifest], s2)"
  by (simp add: installAndLaunchPod_def)

lemma installAndLaunchPod_first_launch:
  "Install pod m s = (None, s1) \<Longrightarrow> CurrentManifest pod s1 = (Inl e, s2) \<Longrightarrow>
   IsNotExist e \<Longrightarrow> Launch pod m s2 = ((True, None), s3) \<Longrightarrow>
   installAndLaunchPod SHA pod m s =
     (True, [Call_Install m, Call_CurrentManifest, Call_Launch m], s3)"
  by (simp add: installAndLaunchPod_def)

text \<open>
  C3, what the code does where the claim asks for a launch. When the manifest on disk has
  another fingerprint than the new one and the halt succeeds, \<open>installAndLaunchPod\<close>
  installs, reads the current manifest, halts, and reports success: \<open>Launch\<close> is not
  called on the new manifest.
\<close>

theorem installAndLaunchPod_halts_and_returns:
  "Install pod m s = (None, s1) \<and> CurrentManifest pod s1 = (Inr c, s2) \<and> SHA c \<noteq> SHA m
   \<and> Halt pod s2 = ((True, None), s3) \<longrightarrow>
   installAndLaunchPod SHA pod m s = (True, [Call_Install m, Call_CurrentManifest, Call_Halt], s3)"
  by (simp add: installAndLaunchPod_def)

theorem installAndLaunchPod_halts_and_returns_witness:
  "installAndLaunchPod config_SHA disk_pod (web_v ''2'') (Some (web_v ''1'')) =
     (True, [Call_Install (web_v ''2''), Call_CurrentManifest, Call_Halt], Some (web_v ''1''))"
  using installAndLaunchPod_halts_and_returns [of disk_pod "web_v ''2''" "Some (web_v ''1'')"
          "Some (web_v ''1'')" "web_v ''1''" "Some (web_v ''1'')" config_SHA "Some (web_v ''1'')"]
  by (simp add: disk_pod_def config_SHA_def web_v_def)

text \<open>
  C5, what the code does where the claim asks for the applied manifest. Every call of
  \<open>RunHooks\<close> that \<open>handlePods\<close> makes passes the zero manifest: \<open>manifestToLaunch\<close> is reset
  to \<open>PodManifest{}\<close> before the hooks are run with its address.
\<close>

theorem handlePods_hooks_get_zero_manifest:
  "Call_RunHooks d m \<in> set (handlePods w hooksDirectory es manifestToLaunch working s) \<longrightarrow>
   m = PodManifest_zero"
proof (induction w hooksDirectory es manifestToLaunch working s rule: handlePods.induct)
  case (1 w hooksDirectory manifestToLaunch working s)
  show ?case by simp
next
  case (2 w hooksDirectory es manifestToLaunch working s)
  show ?case by simp
next
  case (3 w hooksDirectory m' es manifestToLaunch working s)
  then show ?case by simp
next
  case (4 w hooksDirectory es manifestToLaunch working s)
  then show ?case
    by (auto simp: Let_def split: if_splits prod.splits option.splits)
qed

theorem handlePods_hooks_get_zero_manifest_witness:
  "handlePods test_worker ''/etc/hooks'' [Received (web_v ''1''), Default, Quit]
     PodManifest_zero False None =
     [Pod_calls [Call_Install (web_v ''1''), Call_CurrentManifest, Call_Launch (web_v ''1'')],
      Call_RunHooks ''/etc/hooks/after'' PodManifest_zero,
      Println (Errorf ''exit status 1'')]
   \<and> web_v ''1'' \<noteq> PodManifest_zero"
  using handlePods_hooks_get_zero_manifest [of "''/etc/hooks/after''" PodManifest_zero
          test_worker "''/etc/hooks''" "[Received (web_v ''1''), Default, Quit]"
          PodManifest_zero False None]
  by (simp add: test_worker_def disk_pod_def installAndLaunchPod_def config_SHA_def web_v_def
        PodManifest_zero_def)

section \<open>Properties of the health check\<close>

text \<open>
  C6, as the code has it. The result of a probe is classified from how the status
  command, run as a shell script, ends: a command that exits successfully yields
  \<open>Passing\<close> with its output, and no probe yields \<open>Warning\<close>. The status that
  \<open>checkHealth\<close> records is the one \<open>check\<close> returns.
\<close>

theorem check_never_Warning:
  "fst (check sh c) \<noteq> Warning
   \<and> (sh c = Exits output \<longrightarrow> check sh c = (Passing, output, None))
   \<and> Status (checkHealth sh i c n) = fst (check sh c)"
  by (auto simp: check_def checkHealth_def split: cmd_run.splits prod.splits)

theorem check_never_Warning_witness:
  "check (plain_curl (Response 200)) ''curl https://localhost:8080/_status'' =
     (Passing, ''body'', None)
   \<and> Status (checkHealth (plain_curl (Response 200)) ''web''
               ''curl https://localhost:8080/_status'' ''node1'') = Passing"
  using check_never_Warning [of "plain_curl (Response 200)"
          "''curl https://localhost:8080/_status''" "''body''" "''web''" "''node1''"]
  by (simp add: plain_curl_def)

text \<open>
  C6 as stated fails: the specification's classification makes a 429 response \<open>Warning\<close>,
  while the code records no state when the command exits with a non-zero status and
  \<open>Passing\<close> when it exits with zero.
\<close>

theorem check_429_is_not_Warning:
  "spec_classify (Response 429) = Warning
   \<and> Status (checkHealth (failing_curl (Response 429)) ''web''
               ''curl -f https://localhost:8080/_status'' ''node1'') = NoState
   \<and> Status (checkHealth (plain_curl (Response 429)) ''web''
               ''curl https://localhost:8080/_status'' ''node1'') = Passing"
  by (simp add: spec_classify_def checkHealth_def check_def failing_curl_def plain_curl_def)

section \<open>Properties of the roll store\<close>

text \<open>
  C7. \<open>Put\<close> asks the store for one compare-and-swap of the marshalled update under the
  key of its new RC, with \<open>ModifyIndex\<close> 0. Against a store with the compare-and-swap of the
  specification: when a record with that key exists, \<open>Put\<close> returns an error and the store
  is unchanged; \<open>Put\<close> returns no error only if no record with that key existed, and then
  the record is there; and with no record, no transient error and a marshalled update it
  succeeds.
\<close>

theorem Put_creates_only_if_absent:
  "(Marshal u = Inr b \<longrightarrow>
      snd (Put (recording_CAS answer) Marshal u []) =
        [\<lparr>Key = RollPath (NewRC u), Value = b, ModifyIndex = 0\<rparr>])
   \<and> (kv t (RollPath (NewRC u)) \<noteq> None \<longrightarrow>
        fst (Put (consul_CAS transient) Marshal u t) \<noteq> None
        \<and> snd (Put (consul_CAS transient) Marshal u t) = t)
   \<and> (fst (Put (consul_CAS transient) Marshal u t) = None \<longrightarrow>
        kv t (RollPath (NewRC u)) = None
        \<and> (\<exists>b. Marshal u = Inr b
             \<and> kv (snd (Put (consul_CAS transient) Marshal u t)) (RollPath (NewRC u)) =
                 Some \<lparr>Key = RollPath (NewRC u), Value = b, ModifyIndex = last_index t + 1\<rparr>))
   \<and> (kv t (RollPath (NewRC u)) = None \<and> transient = None \<and> Marshal u = Inr b \<longrightarrow>
        fst (Put (consul_CAS transient) Marshal u t) = None)"
  by (cases answer)
     (auto simp: Put_def consul_CAS_def recording_CAS_def Let_def
           split: sum.splits option.splits prod.splits if_splits)

theorem Put_creates_only_if_absent_witness:
  "Put (consul_CAS None) test_Marshal test_update empty_consul =
     (None, \<lparr>kv = [''rolls/rc2'' \<mapsto> roll_pair ''rc2'' ''rc1,rc2''], last_index = 11\<rparr>)
   \<and> Put (consul_CAS None) test_Marshal (test_update\<lparr>OldRC := ''rc0''\<rparr>)
         \<lparr>kv = [''rolls/rc2'' \<mapsto> roll_pair ''rc2'' ''rc1,rc2''], last_index = 11\<rparr> =
       (Some (Errorf ''update with new RC ID rc2 already exists''),
        \<lparr>kv = [''rolls/rc2'' \<mapsto> roll_pair ''rc2'' ''rc1,rc2''], last_index = 11\<rparr>)
   \<and> snd (Put (recording_CAS (True, None)) test_Marshal test_update []) =
       [\<lparr>Key = ''rolls/rc2'', Value = ''rc1,rc2'', ModifyIndex = 0\<rparr>]"
  using Put_creates_only_if_absent [of test_Marshal test_update "''rc1,rc2''" "(True, None)"
          empty_consul None]
        Put_creates_only_if_absent [of test_Marshal "test_update\<lparr>OldRC := ''rc0''\<rparr>" "''rc0,rc2''"
          "(True, None)"
          "\<lparr>kv = [''rolls/rc2'' \<mapsto> roll_pair ''rc2'' ''rc1,rc2''], last_index = 11\<rparr>" None]
  by (simp add: Put_def consul_CAS_def recording_CAS_def test_Marshal_def test_update_def
        empty_consul_def roll_pair_def RollPath_def ROLL_TREE_def Let_def)

lemma unmarshal_loop_eq:
  "unmarshal_loop Unmarshal listed out =
     (map ErrCh (parse_errors Unmarshal listed), out @ parsed_updates Unmarshal listed)"
  by (induction listed arbitrary: out)
     (auto simp: parse_errors_def parsed_updates_def split: sum.splits)

lemma Watch_Closed_quit:
  "Closed \<in> set (Watch Unmarshal currentIndex es) \<Longrightarrow> Watch_quit \<in> set es"
proof (induction Unmarshal currentIndex es rule: Watch.induct)
  case (1 Unmarshal currentIndex)
  then show ?case by simp
next
  case (2 Unmarshal currentIndex es)
  then show ?case by simp
next
  case (3 Unmarshal currentIndex List es)
  then show ?case
    by (auto simp: unmarshal_loop_eq split: sum.splits prod.splits)
qed

lemma Watch_listings:
  "Watch Unmarshal currentIndex es =
     concat (map (tick_sends Unmarshal) (listings currentIndex es))
     @ (if Watch_quit \<in> set es then [Closed] else [])
   \<and> length (listings currentIndex es) = length (takeWhile (\<lambda>e. \<not> is_quit e) es)"
proof (induction Unmarshal currentIndex es rule: Watch.induct)
  case (1 Unmarshal currentIndex)
  show ?case by simp
next
  case (2 Unmarshal currentIndex es)
  show ?case by simp
next
  case (3 Unmarshal currentIndex List es)
  then show ?case
    by (auto simp: unmarshal_loop_eq tick_sends_def split: sum.splits prod.splits)
qed

text \<open>
  C8. For every answer of \<open>kv.List\<close> that lists the tree, \<open>Watch\<close> sends one error for each
  listed pair that does not unmarshal and then, on the output channel, the updates of all
  the listed pairs that do, in the listed order, and goes on with the next turn; for an
  answer that is an error it sends that error and goes on. The goroutine returns (and
  closes its channels) only on the quit signal: every turn before it is handled.
\<close>

theorem Watch_emits_complete_set:
  "(List currentIndex = Inr (listed, LastIndex) \<longrightarrow>
      Watch Unmarshal currentIndex (Tick List # es) =
        map ErrCh (parse_errors Unmarshal listed)
        @ OutCh (parsed_updates Unmarshal listed) # Watch Unmarshal LastIndex es)
   \<and> (List currentIndex = Inl err \<longrightarrow>
        Watch Unmarshal currentIndex (Tick List # es) =
          ErrCh (KVError ''list'' ROLL_TREE err) # Watch Unmarshal currentIndex es)
   \<and> (Closed \<in> set (Watch Unmarshal currentIndex es) \<longrightarrow> Watch_quit \<in> set es)
   \<and> Watch Unmarshal currentIndex es =
       concat (map (tick_sends Unmarshal) (listings currentIndex es))
       @ (if Watch_quit \<in> set es then [Closed] else [])
   \<and> length (listings currentIndex es) = length (takeWhile (\<lambda>e. \<not> is_quit e) es)"
proof (intro conjI impI)
  assume "List currentIndex = Inr (listed, LastIndex)"
  then show "Watch Unmarshal currentIndex (Tick List # es) =
        map ErrCh (parse_errors Unmarshal listed)
        @ OutCh (parsed_updates Unmarshal listed) # Watch Unmarshal LastIndex es"
    by (simp add: unmarshal_loop_eq)
next
  assume "List currentIndex = Inl err"
  then show "Watch Unmarshal currentIndex (Tick List # es) =
          ErrCh (KVError ''list'' ROLL_TREE err) # Watch Unmarshal currentIndex es"
    by simp
next
  assume "Closed \<in> set (Watch Unmarshal currentIndex es)"
  then show "Watch_quit \<in> set es"
    by (rule Watch_Closed_quit)
next
  show "Watch Unmarshal currentIndex es =
       concat (map (tick_sends Unmarshal) (listings currentIndex es))
       @ (if Watch_quit \<in> set es then [Closed] else [])"
    using Watch_listings [of Unmarshal currentIndex es] by blast
next
  show "length (listings currentIndex es) = length (takeWhile (\<lambda>e. \<not> is_quit e) es)"
    using Watch_listings [of Unmarshal currentIndex es] by blast
qed

theorem Watch_emits_complete_set_witness:
  "Watch test_Unmarshal 0 test_events =
     [ErrCh (Errorf ''invalid character''), OutCh [test_update],
      ErrCh (KVError ''list'' ''rolls'' (Errorf ''connection reset'')),
      OutCh [test_update],
      Closed]
   \<and> Watch_quit \<in> set test_events"
  using Watch_emits_complete_set [of "\<lambda>i. Inr ([roll_pair ''rc2'' ''rc1,rc2'',
            roll_pair ''rc9'' ''garbage''], 12)" 0
          "[roll_pair ''rc2'' ''rc1,rc2'', roll_pair ''rc9'' ''garbage'']" 12
          test_Unmarshal "tl test_events" "Errorf ''connection reset''"]
        Watch_emits_complete_set [of "\<lambda>i. Inl (Errorf ''connection reset'')" 12
          "[]" 12 test_Unmarshal "tl (tl test_events)" "Errorf ''connection reset''"]
        Watch_emits_complete_set [of "\<lambda>i. Inl (Errorf ''connection reset'')" 0
          "[]" 12 test_Unmarshal "test_events" "Errorf ''connection reset''"]
  by (simp add: test_events_def test_Unmarshal_def test_update_def roll_pair_def
        ROLL_TREE_def RollPath_def tick_sends_def parse_errors_def parsed_updates_def
        unmarshal_loop_eq)

end
